theory Spec2Isabelle
  imports Complex_Main
begin

section \<open>Data model\<close>

text \<open>
  Identifiers are \<open>string|number\<close> in the source and are compared with \<open>===\<close>, which
  never identifies a number with a string.
\<close>

datatype ident = IdNum int | IdStr string

text \<open>
  A product draft is what the add-product form submits; a product is a draft together
  with the \<open>id\<close> and \<open>created_at\<close> columns (the object spread \<open>{...product, id, created_at}\<close>
  of \<open>createProduct\<close>). Stock is an integer, prices are exact rationals, and \<open>created_at\<close>
  is kept as the millisecond instant that \<open>toISOString\<close> renders.
\<close>

record draft =
  name :: string
  price :: rat
  stock :: int
  barcode :: "string option"
  category :: "string option"

record product = draft +
  id' :: ident
  created_at :: nat

text \<open>A cart line, as the stock functions and the checkout read it.\<close>

record item =
  item_id :: ident
  item_name :: string
  quantity :: int
  item_price :: rat

record stock_update =
  productId :: ident
  newStock :: int

record shortfall =
  sf_id :: ident
  sf_name :: string
  requested :: int
  available :: int

record stock_check =
  success :: bool
  message :: string
  insufficientItems :: "shortfall list"

text \<open>A JavaScript number that may be \<open>NaN\<close> (the result of \<open>parseFloat\<close>).\<close>

datatype jsnum = NaN | Num rat

record transaction =
  tx_id :: ident
  total' :: rat
  cash_given :: jsnum
  change :: jsnum
  status :: string
  tx_created_at :: nat
  updated_at :: nat

record transaction_item =
  transaction_id :: ident
  product_id :: ident
  ti_quantity :: int
  ti_price :: rat

record session =
  access_token :: "string option"
  user :: string

section \<open>The device-local store and the remote store\<close>

text \<open>
  \<open>AsyncStorage\<close> maps string keys to serialized values; the model keeps the value that
  \<open>JSON.parse\<close> gives back. The store itself is reliable (the \<open>catch\<close> blocks of
  \<open>storageService\<close> only guard against faults of the device store, which are outside the
  model).
\<close>

datatype blob = SessionBlob session | TokenBlob string | ProductsBlob "product list"

type_synonym async_storage = "string \<Rightarrow> blob option"



definition PRODUCTS_KEY :: string where
  "PRODUCTS_KEY = ''products''"

record world =
  remote_products :: "product list"
  transactions :: "transaction list"
  transaction_items :: "transaction_item list"
  auth_session :: "session option"
  storage :: async_storage

definition storageService_getProducts :: "world \<Rightarrow> product list" where
  "storageService_getProducts w =
     (case storage w PRODUCTS_KEY of
        Some (ProductsBlob ps) \<Rightarrow> ps
      | _ \<Rightarrow> [])"

definition storageService_saveProducts :: "product list \<Rightarrow> world \<Rightarrow> world" where
  "storageService_saveProducts ps w =
     w\<lparr>storage := (storage w)(PRODUCTS_KEY \<mapsto> ProductsBlob ps)\<rparr>"

text \<open>
  The connectivity probe: \<open>NetInfo.fetch()\<close> yields two flags, each of which may be
  \<open>null\<close>; \<open>checkIsOnline\<close> returns \<open>isConnected && isInternetReachable\<close> and the
  callers branch on its truthiness.
\<close>

record netinfo =
  isConnected :: "bool option"
  isInternetReachable :: "bool option"

definition truthy :: "bool option \<Rightarrow> bool" where
  "truthy b = (b = Some True)"

definition js_and :: "bool option \<Rightarrow> bool option \<Rightarrow> bool option" where
  "js_and a b = (if truthy a then b else a)"

definition checkIsOnline :: "netinfo \<Rightarrow> bool option" where
  "checkIsOnline st = js_and (isConnected st) (isInternetReachable st)"

text \<open>
  The remote \<open>products\<close> table. A remote call either answers with an error (its message)
  and changes nothing, or succeeds; which of the two happens is given by the environment
  of the call.
\<close>

definition remote_select :: "product list \<Rightarrow> product list" where
  "remote_select tbl = sort_key (\<lambda>p. - int (created_at p)) tbl"

definition remote_update_stock :: "ident \<Rightarrow> int \<Rightarrow> product list \<Rightarrow> product list" where
  "remote_update_stock pid n tbl = map (\<lambda>p. if id' p = pid then p\<lparr>stock := n\<rparr> else p) tbl"

section \<open>productService\<close>

record get_env =
  net :: netinfo
  select_error :: "string option"

definition getProducts :: "get_env \<Rightarrow> world \<Rightarrow> product list \<times> world" where
  "getProducts e w =
     (if truthy (checkIsOnline (net e)) then
        (case select_error e of
           Some err \<Rightarrow> (storageService_getProducts w, w)
         | None \<Rightarrow>
             (let data = remote_select (remote_products w)
              in (data, storageService_saveProducts data w)))
      else (storageService_getProducts w, w))"

subsection \<open>Stock management\<close>

record batch_env =
  batch_net :: netinfo
  update_error :: "nat \<Rightarrow> string option"

fun remote_update_loop ::
  "(nat \<Rightarrow> string option) \<Rightarrow> nat \<Rightarrow> stock_update list \<Rightarrow> product list \<Rightarrow> product list" where
  "remote_update_loop errs i [] tbl = tbl"
| "remote_update_loop errs i (u # us) tbl =
     remote_update_loop errs (Suc i) us
       (case errs i of
          None \<Rightarrow> remote_update_stock (productId u) (newStock u) tbl
        | Some err \<Rightarrow> tbl)"

definition apply_update :: "stock_update list \<Rightarrow> product \<Rightarrow> product" where
  "apply_update updates p =
     (case find (\<lambda>u. productId u = id' p) updates of
        Some u \<Rightarrow> p\<lparr>stock := newStock u\<rparr>
      | None \<Rightarrow> p)"

definition batchUpdateProductStock :: "batch_env \<Rightarrow> stock_update list \<Rightarrow> world \<Rightarrow> bool \<times> world" where
  "batchUpdateProductStock e updates w =
     (let w1 = (if truthy (checkIsOnline (batch_net e))
                then w\<lparr>remote_products :=
                         remote_update_loop (update_error e) 0 updates (remote_products w)\<rparr>
                else w);
          products = storageService_getProducts w1;
          updatedProducts = map (apply_update updates) products
      in (True, storageService_saveProducts updatedProducts w1))"

text \<open>
  Rendering of numbers inside template literals (\<open>`Product #${item.id}`\<close>,
  \<open>`temp_${Date.now()}`\<close>): decimal digits, with a leading minus sign for a negative
  integer. (JavaScript switches to exponent notation from \<open>10^21\<close> on, far beyond any
  stock count or millisecond clock.)
\<close>

definition digit :: "nat \<Rightarrow> char" where
  "digit d = ''0123456789'' ! (d mod 10)"

function show_nat :: "nat \<Rightarrow> string" where
  "show_nat n = (if n < 10 then [digit n] else show_nat (n div 10) @ [digit (n mod 10)])"
  by pat_completeness auto
termination
  by (relation "measure (\<lambda>n. n)") auto

declare show_nat.simps [simp del]

definition show_int :: "int \<Rightarrow> string" where
  "show_int i = (if i < 0 then CHR ''-'' # show_nat (nat (- i)) else show_nat (nat i))"

fun show_ident :: "ident \<Rightarrow> string" where
  "show_ident (IdNum n) = show_int n"
| "show_ident (IdStr s) = s"

text \<open>\<open>product?.name || `Product #${item.id}`\<close> and \<open>product?.stock || 0\<close>.\<close>

definition name_or_default :: "product option \<Rightarrow> ident \<Rightarrow> string" where
  "name_or_default po i =
     (case po of
        Some p \<Rightarrow> (if name p \<noteq> [] then name p else ''Product #'' @ show_ident i)
      | None \<Rightarrow> ''Product #'' @ show_ident i)"

definition stock_or_zero :: "product option \<Rightarrow> int" where
  "stock_or_zero po = (case po of Some p \<Rightarrow> (if stock p \<noteq> 0 then stock p else 0) | None \<Rightarrow> 0)"

definition is_insufficient :: "product option \<Rightarrow> item \<Rightarrow> bool" where
  "is_insufficient po it = (case po of None \<Rightarrow> True | Some p \<Rightarrow> stock p < quantity it)"

text \<open>The \<open>for (const item of items)\<close> loop of \<open>checkStockAvailability\<close>.\<close>

fun collect_insufficient :: "product list \<Rightarrow> item list \<Rightarrow> shortfall list \<Rightarrow> shortfall list" where
  "collect_insufficient products [] acc = acc"
| "collect_insufficient products (it # items) acc =
     (let po = find (\<lambda>p. id' p = item_id it) products
      in collect_insufficient products items
           (if is_insufficient po it
            then acc @ [\<lparr>sf_id = item_id it, sf_name = name_or_default po (item_id it),
                          requested = quantity it, available = stock_or_zero po\<rparr>]
            else acc))"

text \<open>
  \<open>getProducts\<close> handles its own errors, so nothing inside the \<open>try\<close> of
  \<open>checkStockAvailability\<close> throws and its \<open>catch\<close> answer is never produced.
\<close>

definition checkStockAvailability :: "get_env \<Rightarrow> item list \<Rightarrow> world \<Rightarrow> stock_check \<times> world" where
  "checkStockAvailability e items w =
     (let (products, w1) = getProducts e w;
          insufficient = collect_insufficient products items []
      in if length insufficient > 0
         then (\<lparr>success = False, message = ''Some items have insufficient stock'',
                 insufficientItems = insufficient\<rparr>, w1)
         else (\<lparr>success = True, message = ''Stock is available'',
                 insufficientItems = []\<rparr>, w1))"

record deduct_env =
  check_env :: get_env
  fetch_env :: get_env
  write_env :: batch_env

definition stock_updates :: "product list \<Rightarrow> item list \<Rightarrow> stock_update list" where
  "stock_updates products items =
     map (\<lambda>it. \<lparr>productId = item_id it,
                newStock = max 0 (stock_or_zero (find (\<lambda>p. id' p = item_id it) products)
                                  - quantity it)\<rparr>) items"

definition deductStockAfterCheckout :: "deduct_env \<Rightarrow> item list \<Rightarrow> world \<Rightarrow> bool \<times> world" where
  "deductStockAfterCheckout e items w =
     (let (stockCheck, w1) = checkStockAvailability (check_env e) items w
      in if \<not> success stockCheck then (False, w1)
         else (let (products, w2) = getProducts (fetch_env e) w1
               in batchUpdateProductStock (write_env e) (stock_updates products items) w2))"

text \<open>A sequence of \<open>deductStockAfterCheckout\<close> calls, each with its own environment.\<close>

fun deduct_calls :: "(deduct_env \<times> item list) list \<Rightarrow> world \<Rightarrow> world" where
  "deduct_calls [] w = w"
| "deduct_calls (c # cs) w = deduct_calls cs (snd (deductStockAfterCheckout (fst c) (snd c) w))"

definition stocks_nonneg :: "product list \<Rightarrow> bool" where
  "stocks_nonneg ps = list_all (\<lambda>p. 0 \<le> stock p) ps"

definition stock_invariant :: "world \<Rightarrow> bool" where
  "stock_invariant w =
     (stocks_nonneg (remote_products w) \<and> stocks_nonneg (storageService_getProducts w))"


text \<open>
  The single-product update. The remote call is \<open>update(...).eq(...).select().single()\<close>;
  an error answer is thrown and caught by the function's own \<open>catch\<close>, which returns
  \<open>false\<close>.
\<close>

record stock_env =
  stock_net :: netinfo
  stock_error :: "string option"

definition set_cached_stock :: "ident \<Rightarrow> int \<Rightarrow> product list \<Rightarrow> product list" where
  "set_cached_stock productId' newStockQuantity products =
     map (\<lambda>p. if id' p = productId' then p\<lparr>stock := newStockQuantity\<rparr> else p) products"

definition updateProductStock :: "stock_env \<Rightarrow> ident \<Rightarrow> int \<Rightarrow> world \<Rightarrow> bool \<times> world" where
  "updateProductStock e productId' newStockQuantity w =
     (if truthy (checkIsOnline (stock_net e)) then
        (case stock_error e of
           Some err \<Rightarrow> (False, w)
         | None \<Rightarrow>
             (let w1 = w\<lparr>remote_products :=
                          remote_update_stock productId' newStockQuantity (remote_products w)\<rparr>;
                  updated = set_cached_stock productId' newStockQuantity
                              (storageService_getProducts w1)
              in (True, storageService_saveProducts updated w1)))
      else
        (let updated = set_cached_stock productId' newStockQuantity
                         (storageService_getProducts w)
         in (True, storageService_saveProducts updated w)))"

subsection \<open>Creating a product\<close>

text \<open>
  The environment of \<open>createProduct\<close>: the probe, the answer of the remote insert (an error,
  or the id and creation time the server assigns), and the two clock readings
  \<open>Date.now()\<close> and \<open>new Date()\<close> of the offline branch. A thrown error is \<open>Inl\<close>.
\<close>

record create_env =
  create_net :: netinfo
  insert_error :: "string option"
  server_id :: ident
  server_time :: nat
  date_now :: nat
  new_date :: nat

definition createProduct :: "create_env \<Rightarrow> draft \<Rightarrow> world \<Rightarrow> (string + product) \<times> world" where
  "createProduct e d w =
     (if truthy (checkIsOnline (create_net e)) then
        (case insert_error e of
           Some err \<Rightarrow> (Inl err, w)
         | None \<Rightarrow>
             (let data = draft.extend d (product.fields (server_id e) (server_time e));
                  w1 = w\<lparr>remote_products := remote_products w @ [data]\<rparr>;
                  products = storageService_getProducts w1
              in (Inr data, storageService_saveProducts (data # products) w1)))
      else
        (let products = storageService_getProducts w;
             newProduct = draft.extend d
                            (product.fields (IdStr (''temp_'' @ show_nat (date_now e)))
                                            (new_date e))
         in (Inr newProduct, storageService_saveProducts (newProduct # products) w)))"

section \<open>storageService and authService: the session\<close>






section \<open>CheckoutModal\<close>

text \<open>
  The cash field holds text. \<open>handleCashInputChange\<close> admits only text matching
  \<open>/^\d*\.?\d{0,2}$/\<close>; on such text (unsigned decimal digits, no exponent) \<open>parseFloat\<close>
  reads the leading digits and the digits after a point, and is \<open>NaN\<close> when there are
  none. Amounts are exact rationals here.
\<close>

definition is_digit :: "char \<Rightarrow> bool" where
  "is_digit c = (c \<in> set ''0123456789'')"

definition digit_val :: "char \<Rightarrow> nat" where
  "digit_val c = of_char c - 48"

definition digits_val :: "string \<Rightarrow> nat" where
  "digits_val ds = foldl (\<lambda>acc c. 10 * acc + digit_val c) 0 ds"

definition parseFloat :: "string \<Rightarrow> jsnum" where
  "parseFloat s =
     (let ip = takeWhile is_digit s;
          rest = dropWhile is_digit s;
          fp = (case rest of
                  c # r \<Rightarrow> (if c = CHR ''.'' then takeWhile is_digit r else [])
                | [] \<Rightarrow> [])
      in if ip = [] \<and> fp = [] then NaN
         else Num (of_nat (digits_val ip) + of_nat (digits_val fp) / 10 ^ length fp))"

definition cash_pattern :: "string \<Rightarrow> bool" where
  "cash_pattern text' =
     (case dropWhile is_digit text' of
        [] \<Rightarrow> True
      | c # r \<Rightarrow> c = CHR ''.'' \<and> length r \<le> 2 \<and> list_all is_digit r)"

record receipt_line = item +
  subtotal :: rat

record receipt = transaction +
  items' :: "receipt_line list"

record modal =
  cashGiven :: string
  processing :: bool
  receipt :: "receipt option"
  error :: "string option"

definition handleCashInputChange :: "string \<Rightarrow> modal \<Rightarrow> modal" where
  "handleCashInputChange text' m = (if cash_pattern text' then m\<lparr>cashGiven := text'\<rparr> else m)"

definition change_of :: "string \<Rightarrow> rat \<Rightarrow> jsnum" where
  "change_of cash tot =
     (if cash \<noteq> [] then (case parseFloat cash of NaN \<Rightarrow> NaN | Num c \<Rightarrow> Num (c - tot))
      else Num 0)"

definition isValidPayment :: "string \<Rightarrow> rat \<Rightarrow> bool" where
  "isValidPayment cash tot =
     (cash \<noteq> [] \<and> (case parseFloat cash of NaN \<Rightarrow> False | Num c \<Rightarrow> c \<ge> tot))"

fun join :: "string \<Rightarrow> string list \<Rightarrow> string" where
  "join sep [] = []"
| "join sep [x] = x"
| "join sep (x # y # ys) = x @ sep @ join sep (y # ys)"

definition out_of_stock_message :: "shortfall list \<Rightarrow> string" where
  "out_of_stock_message ins =
     ''Some items are out of stock: '' @
     join '', '' (map (\<lambda>i. sf_name i @ '' (requested: '' @ show_int (requested i)
                            @ '', available: '' @ show_int (available i) @ '')'') ins)"

definition error_message :: "string \<Rightarrow> string" where
  "error_message msg = (if msg \<noteq> [] then msg else ''An error occurred during checkout'')"

text \<open>
  The environment of one checkout: the environment of the stock check, the answers of the
  two remote inserts (with the id the server gives the transaction), the two clock
  readings of the insert payload, and the environment of the stock deduction.
\<close>

record checkout_env =
  validate_env :: get_env
  transaction_error :: "string option"
  transaction_server_id :: ident
  created_now :: nat
  updated_now :: nat
  items_error :: "string option"
  deducting_env :: deduct_env

definition handleSubmitTransaction ::
  "checkout_env \<Rightarrow> item list \<Rightarrow> rat \<Rightarrow> modal \<Rightarrow> world \<Rightarrow> modal \<times> world" where
  "handleSubmitTransaction e cart tot m w =
     (let m1 = m\<lparr>processing := True, error := None\<rparr>;
          (stockCheck, w1) = checkStockAvailability (validate_env e) cart w
      in if \<not> success stockCheck
         then (m1\<lparr>error := Some (out_of_stock_message (insufficientItems stockCheck)),
                   processing := False\<rparr>, w1)
         else
           (case transaction_error e of
              Some err \<Rightarrow> (m1\<lparr>error := Some (error_message err), processing := False\<rparr>, w1)
            | None \<Rightarrow>
                (let tx = \<lparr>tx_id = transaction_server_id e, total' = tot,
                            cash_given = parseFloat (cashGiven m),
                            change = change_of (cashGiven m) tot,
                            status = ''completed'',
                            tx_created_at = created_now e, updated_at = updated_now e\<rparr>;
                     w2 = w1\<lparr>transactions := transactions w1 @ [tx]\<rparr>
                 in case items_error e of
                      Some err \<Rightarrow>
                        (m1\<lparr>error := Some (error_message err), processing := False\<rparr>, w2)
                    | None \<Rightarrow>
                        (let transactionItems =
                               map (\<lambda>it. \<lparr>transaction_id = tx_id tx, product_id = item_id it,
                                          ti_quantity = quantity it, ti_price = item_price it\<rparr>)
                                   cart;
                             w3 = w2\<lparr>transaction_items :=
                                        transaction_items w2 @ transactionItems\<rparr>;
                             (deducted, w4) =
                               deductStockAfterCheckout (deducting_env e) cart w3;
                             r = transaction.extend tx
                                   (receipt.fields
                                      (map (\<lambda>it. item.extend it
                                                   (receipt_line.fields
                                                      (item_price it * of_int (quantity it))))
                                           cart))
                         in (m1\<lparr>receipt := Some r, processing := False\<rparr>, w4)))))"

text \<open>
  The form with the "Complete Sale" button is rendered only when the modal is neither
  processing nor showing a receipt, and the button is \<open>disabled\<close> unless the payment is
  valid; a disabled button does not call its \<open>onPress\<close> handler.
\<close>

definition completeSale_onPress ::
  "checkout_env \<Rightarrow> item list \<Rightarrow> rat \<Rightarrow> modal \<Rightarrow> world \<Rightarrow> modal \<times> world" where
  "completeSale_onPress e cart tot m w =
     (if \<not> processing m \<and> receipt m = None \<and> isValidPayment (cashGiven m) tot
      then handleSubmitTransaction e cart tot m w
      else (m, w))"

section \<open>Specification vocabulary and sample inputs\<close>

text \<open>
  The stock of product \<open>P\<close> that a product view offers: the stock of the first entry with
  that id, and \<open>0\<close> when the view has no such entry.
\<close>

definition availableStock :: "product list \<Rightarrow> ident \<Rightarrow> int" where
  "availableStock view P = (case find (\<lambda>p. id' p = P) view of None \<Rightarrow> 0 | Some p \<Rightarrow> stock p)"

text \<open>
  What a sale does to one product of a view when only one cart line for that product
  counts: the first such line (\<open>Array.prototype.find\<close> on the cart order), or the last.
\<close>

definition deduct_line :: "product list \<Rightarrow> item option \<Rightarrow> product \<Rightarrow> product" where
  "deduct_line view line p =
     (case line of
        None \<Rightarrow> p
      | Some it \<Rightarrow> p\<lparr>stock := max 0 (availableStock view (id' p) - quantity it)\<rparr>)"

definition deduct_first_line :: "product list \<Rightarrow> item list \<Rightarrow> product \<Rightarrow> product" where
  "deduct_first_line view lines p =
     deduct_line view (find (\<lambda>it. item_id it = id' p) lines) p"

definition deduct_last_line :: "product list \<Rightarrow> item list \<Rightarrow> product \<Rightarrow> product" where
  "deduct_last_line view lines p =
     deduct_line view (find (\<lambda>it. item_id it = id' p) (rev lines)) p"

definition missing_from :: "product list \<Rightarrow> ident \<Rightarrow> bool" where
  "missing_from view P = (find (\<lambda>p. id' p = P) view = None)"

definition online :: netinfo where
  "online = \<lparr>isConnected = Some True, isInternetReachable = Some True\<rparr>"

definition offline :: netinfo where
  "offline = \<lparr>isConnected = Some False, isInternetReachable = Some False\<rparr>"

definition soap :: "int \<Rightarrow> product" where
  "soap n = \<lparr>name = ''Soap'', price = 25, stock = n, barcode = None, category = None,
             id' = IdNum 1, created_at = 1000\<rparr>"

definition soap_line :: "int \<Rightarrow> item" where
  "soap_line q = \<lparr>item_id = IdNum 1, item_name = ''Soap'', quantity = q, item_price = 25\<rparr>"

definition ghost_line :: item where
  "ghost_line = \<lparr>item_id = IdNum 2, item_name = ''Ghost'', quantity = 0, item_price = 0\<rparr>"

definition shop :: "product list \<Rightarrow> product list \<Rightarrow> world" where
  "shop remote cached =
     \<lparr>remote_products = remote, transactions = [], transaction_items = [],
      auth_session = None, storage = Map.empty(PRODUCTS_KEY \<mapsto> ProductsBlob cached)\<rparr>"

definition fetch_ok :: get_env where
  "fetch_ok = \<lparr>net = online, select_error = None\<rparr>"

definition fetch_offline :: get_env where
  "fetch_offline = \<lparr>net = offline, select_error = None\<rparr>"

definition deduct_online :: deduct_env where
  "deduct_online = \<lparr>check_env = fetch_ok, fetch_env = fetch_ok,
                     write_env = \<lparr>batch_net = online, update_error = (\<lambda>i. None)\<rparr>\<rparr>"

definition deduct_offline :: deduct_env where
  "deduct_offline = \<lparr>check_env = fetch_offline, fetch_env = fetch_offline,
                      write_env = \<lparr>batch_net = offline, update_error = (\<lambda>i. None)\<rparr>\<rparr>"


definition soap_draft :: draft where
  "soap_draft = \<lparr>name = ''Soap'', price = 25, stock = 10, barcode = None, category = None\<rparr>"

definition create_offline :: create_env where
  "create_offline = \<lparr>create_net = offline, insert_error = None, server_id = IdNum 0,
                      server_time = 0, date_now = 1700000000000, new_date = 1700000000000\<rparr>"

definition stock_write_fails :: stock_env where
  "stock_write_fails = \<lparr>stock_net = online, stock_error = Some ''timeout''\<rparr>"


definition checkout_online :: checkout_env where
  "checkout_online = \<lparr>validate_env = fetch_ok, transaction_error = None,
                       transaction_server_id = IdNum 100, created_now = 2000,
                       updated_now = 2000, items_error = None,
                       deducting_env = deduct_online\<rparr>"

definition till :: "string \<Rightarrow> modal" where
  "till cash = \<lparr>cashGiven = cash, processing = False, receipt = None, error = None\<rparr>"

section \<open>Basic facts about the stores and the product fetch\<close>

lemma stocks_nonneg_remote_select [simp]: "stocks_nonneg (remote_select tbl) = stocks_nonneg tbl"
  by (simp add: stocks_nonneg_def remote_select_def list_all_iff)

lemma storage_get_save [simp]:
  "storageService_getProducts (storageService_saveProducts ps w) = ps"
  by (simp add: storageService_getProducts_def storageService_saveProducts_def)

lemma save_fields [simp]:
  "remote_products (storageService_saveProducts ps w) = remote_products w"
  "transactions (storageService_saveProducts ps w) = transactions w"
  "transaction_items (storageService_saveProducts ps w) = transaction_items w"
  "auth_session (storageService_saveProducts ps w) = auth_session w"
  by (simp_all add: storageService_saveProducts_def)

lemma getProducts_cases:
  "getProducts e w = (storageService_getProducts w, w) \<or>
   getProducts e w = (remote_select (remote_products w),
                      storageService_saveProducts (remote_select (remote_products w)) w)"
  by (simp add: getProducts_def Let_def split: option.split)

lemma getProducts_view:
  "storageService_getProducts (snd (getProducts e w)) = fst (getProducts e w)"
  using getProducts_cases [of e w] by auto

lemma getProducts_remote [simp]:
  "remote_products (snd (getProducts e w)) = remote_products w"
  "transactions (snd (getProducts e w)) = transactions w"
  "transaction_items (snd (getProducts e w)) = transaction_items w"
  "auth_session (snd (getProducts e w)) = auth_session w"
  using getProducts_cases [of e w] by auto

lemma getProducts_invariant:
  "stock_invariant w \<Longrightarrow> stock_invariant (snd (getProducts e w))"
  using getProducts_cases [of e w] by (auto simp: stock_invariant_def)

lemma collect_insufficient_eq:
  "collect_insufficient ps items acc =
     acc @ map (\<lambda>it. \<lparr>sf_id = item_id it,
                       sf_name = name_or_default (find (\<lambda>p. id' p = item_id it) ps) (item_id it),
                       requested = quantity it,
                       available = stock_or_zero (find (\<lambda>p. id' p = item_id it) ps)\<rparr>)
             (filter (\<lambda>it. is_insufficient (find (\<lambda>p. id' p = item_id it) ps) it) items)"
  by (induction items arbitrary: acc) (simp_all add: Let_def)

lemma checkStock_world:
  "snd (checkStockAvailability e items w) = snd (getProducts e w)"
  by (simp add: checkStockAvailability_def Let_def split: prod.split)

lemma remote_update_stock_nonneg:
  "0 \<le> n \<Longrightarrow> stocks_nonneg tbl \<Longrightarrow> stocks_nonneg (remote_update_stock pid n tbl)"
  by (auto simp: stocks_nonneg_def remote_update_stock_def list_all_iff)

lemma remote_update_loop_nonneg:
  "list_all (\<lambda>u. 0 \<le> newStock u) us \<Longrightarrow> stocks_nonneg tbl \<Longrightarrow>
   stocks_nonneg (remote_update_loop errs i us tbl)"
  by (induction us arbitrary: i tbl) (auto simp: remote_update_stock_nonneg split: option.split)

lemma apply_update_nonneg:
  "list_all (\<lambda>u. 0 \<le> newStock u) us \<Longrightarrow> 0 \<le> stock p \<Longrightarrow> 0 \<le> stock (apply_update us p)"
  by (auto simp: apply_update_def list_all_iff find_Some_iff split: option.split)

lemma storage_get_remote_upd [simp]:
  "storageService_getProducts (w\<lparr>remote_products := tbl\<rparr>) = storageService_getProducts w"
  by (simp add: storageService_getProducts_def)

lemma batch_cache:
  "storageService_getProducts (snd (batchUpdateProductStock e us w)) =
     map (apply_update us) (storageService_getProducts w)"
  by (simp add: batchUpdateProductStock_def Let_def)

lemma batch_remote:
  "remote_products (snd (batchUpdateProductStock e us w)) =
     (if truthy (checkIsOnline (batch_net e))
      then remote_update_loop (update_error e) 0 us (remote_products w)
      else remote_products w)"
  by (simp add: batchUpdateProductStock_def Let_def)

lemma batch_invariant:
  assumes "list_all (\<lambda>u. 0 \<le> newStock u) us" and "stock_invariant w"
  shows "stock_invariant (snd (batchUpdateProductStock e us w))"
proof -
  have "stocks_nonneg (map (apply_update us) (storageService_getProducts w))"
    using assms by (simp add: stock_invariant_def stocks_nonneg_def list_all_iff apply_update_nonneg)
  moreover have "stocks_nonneg (remote_update_loop (update_error e) 0 us (remote_products w))"
    using assms by (simp add: stock_invariant_def remote_update_loop_nonneg)
  ultimately show ?thesis
    using assms(2) by (simp add: stock_invariant_def batch_cache batch_remote)
qed

lemma stock_updates_nonneg: "list_all (\<lambda>u. 0 \<le> newStock u) (stock_updates ps items)"
  by (simp add: stock_updates_def list_all_iff)

lemma deduct_world:
  "snd (deductStockAfterCheckout e items w) =
     (let w1 = snd (getProducts (check_env e) w)
      in if \<not> success (fst (checkStockAvailability (check_env e) items w)) then w1
         else snd (batchUpdateProductStock (write_env e)
                     (stock_updates (fst (getProducts (fetch_env e) w1)) items)
                     (snd (getProducts (fetch_env e) w1))))"
proof -
  obtain r w1 where c: "checkStockAvailability (check_env e) items w = (r, w1)"
    by (cases "checkStockAvailability (check_env e) items w")
  obtain ps w2 where g: "getProducts (fetch_env e) w1 = (ps, w2)"
    by (cases "getProducts (fetch_env e) w1")
  have w1: "snd (getProducts (check_env e) w) = w1"
    using c checkStock_world [of "check_env e" items w] by simp
  show ?thesis
    by (simp add: deductStockAfterCheckout_def Let_def c g w1)
qed

lemma deduct_invariant:
  "stock_invariant w \<Longrightarrow> stock_invariant (snd (deductStockAfterCheckout e items w))"
  by (simp add: deduct_world Let_def getProducts_invariant batch_invariant stock_updates_nonneg)

lemma deduct_calls_invariant:
  "stock_invariant w \<Longrightarrow> stock_invariant (deduct_calls cs w)"
  by (induction cs arbitrary: w) (simp_all add: deduct_invariant)


lemma stock_or_zero_available:
  "stock_or_zero (find (\<lambda>p. id' p = P) view) = availableStock view P"
  by (simp add: stock_or_zero_def availableStock_def split: option.split)

lemma is_insufficient_available:
  "0 < quantity it \<Longrightarrow>
   is_insufficient (find (\<lambda>p. id' p = item_id it) view) it =
     (availableStock view (item_id it) < quantity it)"
  by (simp add: is_insufficient_def availableStock_def split: option.split)

lemma checkStock_insufficientItems:
  "insufficientItems (fst (checkStockAvailability e items w)) =
     collect_insufficient (fst (getProducts e w)) items []"
  by (simp add: checkStockAvailability_def Let_def split: prod.split)

lemma checkStock_success:
  "success (fst (checkStockAvailability e items w)) =
     (collect_insufficient (fst (getProducts e w)) items [] = [])"
  by (simp add: checkStockAvailability_def Let_def split: prod.split)

section \<open>Stock never becomes negative\<close>

text \<open>
  Claim C1. Start from a state in which every stock value, in the remote table and in the
  cached product list, is non-negative. Then after each call of a sequence of
  \<open>deductStockAfterCheckout\<close> calls (whatever the connectivity and the remote answers
  of each call) every stock value of the cached product list is non-negative, and so is
  every stock value of the remote table; and every update that a call prepares carries
  \<open>max 0 (current - quantity)\<close>, which is non-negative.
\<close>

theorem deduct_calls_keep_stock_nonneg:
  assumes "stock_invariant w" and "n \<le> length calls"
  shows "stocks_nonneg (storageService_getProducts (deduct_calls (take n calls) w))
         \<and> stocks_nonneg (remote_products (deduct_calls (take n calls) w))
         \<and> list_all (\<lambda>u. 0 \<le> newStock u) (stock_updates products lines)"
  using assms(1) deduct_calls_invariant [of w "take n calls"]
  by (simp add: stock_invariant_def stock_updates_nonneg)

theorem deduct_calls_keep_stock_nonneg_witness:
  "stock_invariant (shop [soap 3] [soap 3])
   \<and> (2::nat) \<le> length [(deduct_offline, [soap_line 2]), (deduct_online, [soap_line 2])]
   \<and> stocks_nonneg (storageService_getProducts
         (deduct_calls (take 2 [(deduct_offline, [soap_line 2]), (deduct_online, [soap_line 2])])
            (shop [soap 3] [soap 3])))
   \<and> map stock (storageService_getProducts
         (deduct_calls [(deduct_offline, [soap_line 2]), (deduct_online, [soap_line 2])]
            (shop [soap 3] [soap 3]))) = [1]"
proof -
  have h: "stock_invariant (shop [soap 3] [soap 3])"
    by code_simp
  have v: "map stock (storageService_getProducts
         (deduct_calls [(deduct_offline, [soap_line 2]), (deduct_online, [soap_line 2])]
            (shop [soap 3] [soap 3]))) = [1]"
    by code_simp
  show ?thesis
    using h v deduct_calls_keep_stock_nonneg [OF h, of 2 "[(deduct_offline, [soap_line 2]), (deduct_online, [soap_line 2])]"]
    by simp
qed

section \<open>The availability check\<close>

lemma is_insufficient_missing_or_below:
  "is_insufficient (find (\<lambda>p. id' p = item_id it) view) it =
     (missing_from view (item_id it) \<or> availableStock view (item_id it) < quantity it)"
  by (simp add: is_insufficient_def missing_from_def availableStock_def split: option.split)

text \<open>
  Claim C2, as the code has it. \<open>checkStockAvailability\<close> judges each cart line on its
  own against the product view fetched by this call: it records a shortfall for a line
  exactly when the line's product is missing from the view or the stock the view offers
  for it is below the quantity of that line. So a shortfall is recorded for product \<open>P\<close>
  exactly when some line for \<open>P\<close> is such a line, the recorded entries are those lines in
  cart order, and the check succeeds exactly when there is none. A line for a missing
  product is recorded whatever its quantity, and quantities of several lines for the same
  product are not added up.
\<close>

theorem shortfall_iff_missing_or_stock_below:
  "(P \<in> sf_id ` set (insufficientItems (fst (checkStockAvailability e items w)))) =
     (\<exists>it \<in> set items. item_id it = P
        \<and> (missing_from (fst (getProducts e w)) P
           \<or> availableStock (fst (getProducts e w)) P < quantity it))
   \<and> map (\<lambda>s. (sf_id s, requested s, available s))
         (insufficientItems (fst (checkStockAvailability e items w))) =
       map (\<lambda>it. (item_id it, quantity it, availableStock (fst (getProducts e w)) (item_id it)))
         (filter (\<lambda>it. missing_from (fst (getProducts e w)) (item_id it)
                      \<or> availableStock (fst (getProducts e w)) (item_id it) < quantity it)
            items)
   \<and> success (fst (checkStockAvailability e items w)) =
       (filter (\<lambda>it. missing_from (fst (getProducts e w)) (item_id it)
                    \<or> availableStock (fst (getProducts e w)) (item_id it) < quantity it)
          items = [])"
proof -
  let ?view = "fst (getProducts e w)"
  let ?short = "\<lambda>it. missing_from ?view (item_id it)
                     \<or> availableStock ?view (item_id it) < quantity it"
  have ins: "insufficientItems (fst (checkStockAvailability e items w)) =
     map (\<lambda>it. \<lparr>sf_id = item_id it,
                 sf_name = name_or_default (find (\<lambda>p. id' p = item_id it) ?view) (item_id it),
                 requested = quantity it,
                 available = stock_or_zero (find (\<lambda>p. id' p = item_id it) ?view)\<rparr>)
       (filter ?short items)"
    by (simp add: checkStock_insufficientItems collect_insufficient_eq
        is_insufficient_missing_or_below)
  have suc: "success (fst (checkStockAvailability e items w)) = (filter ?short items = [])"
    by (simp add: checkStock_success collect_insufficient_eq is_insufficient_missing_or_below)
  have per_product: "(P \<in> sf_id ` set (insufficientItems (fst (checkStockAvailability e items w))))
      = (\<exists>it \<in> set items. item_id it = P
           \<and> (missing_from ?view P \<or> availableStock ?view P < quantity it))"
    unfolding ins by (auto simp: image_iff)
  have per_line: "map (\<lambda>s. (sf_id s, requested s, available s))
         (insufficientItems (fst (checkStockAvailability e items w))) =
       map (\<lambda>it. (item_id it, quantity it, availableStock ?view (item_id it)))
         (filter ?short items)"
    unfolding ins by (simp add: stock_or_zero_available comp_def)
  show ?thesis
    using per_product per_line suc by blast
qed

theorem shortfall_iff_missing_or_stock_below_witness:
  "IdNum 1 \<in> sf_id ` set (insufficientItems
         (fst (checkStockAvailability fetch_offline [soap_line 5, soap_line 2]
                 (shop [] [soap 3]))))
   \<and> map (\<lambda>s. (sf_id s, requested s, available s))
         (insufficientItems (fst (checkStockAvailability fetch_offline [soap_line 5, soap_line 2]
                 (shop [] [soap 3])))) = [(IdNum 1, 5, 3)]
   \<and> \<not> success (fst (checkStockAvailability fetch_offline [soap_line 5, soap_line 2]
                 (shop [] [soap 3])))"
proof -
  have v: "filter (\<lambda>it. missing_from (fst (getProducts fetch_offline (shop [] [soap 3])))
                          (item_id it)
                    \<or> availableStock (fst (getProducts fetch_offline (shop [] [soap 3])))
                          (item_id it) < quantity it)
             [soap_line 5, soap_line 2] = [soap_line 5]"
    by code_simp
  have a: "availableStock (fst (getProducts fetch_offline (shop [] [soap 3]))) (IdNum 1) = 3"
    by code_simp
  have q: "item_id (soap_line 5) = IdNum 1" "quantity (soap_line 5) = 5"
    by (simp_all add: soap_line_def)
  show ?thesis
    using v a q shortfall_iff_missing_or_stock_below
                  [of "IdNum 1" fetch_offline "[soap_line 5, soap_line 2]" "shop [] [soap 3]"]
    by simp
qed

text \<open>
  A line of quantity 0 for a product that the view does not hold: the view offers 0 for
  it, the line does not ask for more than that, and a shortfall is recorded all the same.
\<close>

theorem missing_product_zero_quantity_shortfall:
  "IdNum 2 \<in> sf_id ` set (insufficientItems
         (fst (checkStockAvailability fetch_offline [ghost_line] (shop [] [soap 3]))))
   \<and> availableStock (fst (getProducts fetch_offline (shop [] [soap 3]))) (item_id ghost_line) = 0
   \<and> item_id ghost_line = IdNum 2
   \<and> quantity ghost_line = 0"
  by code_simp

text \<open>
  For cart lines of positive quantity (the only ones the cart builds) a missing product is
  always asked for more than the 0 it offers, and the test reads "requested exceeds
  available".
\<close>

lemma shortfall_iff_exceeds_for_positive_quantities:
  assumes "\<forall>it \<in> set items. 0 < quantity it"
  shows "(P \<in> sf_id ` set (insufficientItems (fst (checkStockAvailability e items w)))) =
           (\<exists>it \<in> set items. item_id it = P
              \<and> availableStock (fst (getProducts e w)) P < quantity it)
         \<and> success (fst (checkStockAvailability e items w)) =
           (\<forall>it \<in> set items. quantity it \<le> availableStock (fst (getProducts e w)) (item_id it))"
proof -
  let ?view = "fst (getProducts e w)"
  have f: "filter (\<lambda>it. is_insufficient (find (\<lambda>p. id' p = item_id it) ?view) it) items =
           filter (\<lambda>it. availableStock ?view (item_id it) < quantity it) items"
    using assms by (intro filter_cong refl) (simp add: is_insufficient_available)
  show ?thesis
    by (auto simp: checkStock_insufficientItems checkStock_success collect_insufficient_eq f
        image_iff filter_empty_conv not_less)
qed

section \<open>The batch update\<close>

lemma id_apply_update [simp]: "id' (apply_update us p) = id' p"
  by (simp add: apply_update_def split: option.split)

lemma apply_update_idem: "apply_update us (apply_update us p) = apply_update us p"
  by (simp add: apply_update_def split: option.split)

lemma batch_result [simp]: "fst (batchUpdateProductStock e us w) = True"
  by (simp add: batchUpdateProductStock_def Let_def)

text \<open>
  Claim C8. Calling \<open>batchUpdateProductStock\<close> a second time with the same updates
  (whatever the connectivity and the remote answers of either call) leaves the cached
  product list as the first call left it.
\<close>

theorem batch_twice_same_cache:
  "storageService_getProducts
     (snd (batchUpdateProductStock e2 us (snd (batchUpdateProductStock e1 us w)))) =
   storageService_getProducts (snd (batchUpdateProductStock e1 us w))"
  by (simp add: batch_cache apply_update_idem)

theorem batch_twice_same_cache_witness:
  "map stock (storageService_getProducts
     (snd (batchUpdateProductStock (write_env deduct_online)
             [\<lparr>productId = IdNum 1, newStock = 4\<rparr>] (shop [soap 10] [soap 10])))) = [4]
   \<and> map stock (storageService_getProducts
     (snd (batchUpdateProductStock (write_env deduct_offline)
             [\<lparr>productId = IdNum 1, newStock = 4\<rparr>]
             (snd (batchUpdateProductStock (write_env deduct_online)
                     [\<lparr>productId = IdNum 1, newStock = 4\<rparr>] (shop [soap 10] [soap 10])))))) = [4]"
proof -
  have v: "map stock (storageService_getProducts
     (snd (batchUpdateProductStock (write_env deduct_online)
             [\<lparr>productId = IdNum 1, newStock = 4\<rparr>] (shop [soap 10] [soap 10])))) = [4]"
    by code_simp
  show ?thesis
    using v batch_twice_same_cache [of "write_env deduct_offline"
              "[\<lparr>productId = IdNum 1, newStock = 4\<rparr>]" "write_env deduct_online"
              "shop [soap 10] [soap 10]"]
    by simp
qed

section \<open>The stock deduction\<close>

lemma availableStock_own:
  "distinct (map id' view) \<Longrightarrow> p \<in> set view \<Longrightarrow> availableStock view (id' p) = stock p"
  by (induction view) (auto simp: availableStock_def)

lemma find_map_comp: "find P (map f xs) = map_option f (find (\<lambda>x. P (f x)) xs)"
  by (induction xs) simp_all

lemma find_holds: "find P xs = Some x \<Longrightarrow> P x"
  by (induction xs) (simp_all split: if_splits)

lemma apply_stock_updates:
  "apply_update (stock_updates view lines) p = deduct_first_line view lines p"
  by (auto simp: apply_update_def stock_updates_def find_map_comp deduct_first_line_def
      deduct_line_def stock_or_zero_available split: option.split dest: find_holds)

lemma apply_stock_updates_rev:
  "apply_update (rev (stock_updates view lines)) p = deduct_last_line view lines p"
  by (auto simp: apply_update_def stock_updates_def find_map_comp deduct_last_line_def
      deduct_line_def stock_or_zero_available rev_map split: option.split dest: find_holds)

lemma find_snoc:
  "find P (xs @ [x]) = (case find P xs of Some y \<Rightarrow> Some y | None \<Rightarrow> (if P x then Some x else None))"
  by (induction xs) simp_all

lemma apply_update_snoc:
  "apply_update (us @ [u]) p =
     apply_update us (if id' p = productId u then p\<lparr>stock := newStock u\<rparr> else p)"
  by (simp add: apply_update_def find_snoc split: option.split)

lemma remote_update_loop_all_ok:
  "remote_update_loop (\<lambda>i. None) i us tbl = map (apply_update (rev us)) tbl"
proof (induction us arbitrary: i tbl)
  case Nil
  show ?case by (simp add: apply_update_def)
next
  case (Cons u us)
  show ?case
    by (simp add: Cons.IH remote_update_stock_def apply_update_snoc)
qed

lemma no_errors_fun: "(\<forall>i. errs i = None) \<Longrightarrow> errs = (\<lambda>i. None)"
  by (simp add: fun_eq_iff)

lemma deduct_result:
  "fst (deductStockAfterCheckout e items w) =
     success (fst (checkStockAvailability (check_env e) items w))"
proof -
  obtain r w1 where c: "checkStockAvailability (check_env e) items w = (r, w1)"
    by (cases "checkStockAvailability (check_env e) items w")
  obtain ps w2 where g: "getProducts (fetch_env e) w1 = (ps, w2)"
    by (cases "getProducts (fetch_env e) w1")
  show ?thesis
    by (simp add: deductStockAfterCheckout_def Let_def c g)
qed

text \<open>
  Claim C3, as the code has it. When the availability re-check inside
  \<open>deductStockAfterCheckout\<close> fails, the call returns \<open>false\<close> and the remote table is
  untouched; no deduction reaches the cache either, whose only possible change is the
  refresh that the product fetch of the check performs: it ends as the fetched remote
  list when that fetch was made online and succeeded, and unchanged otherwise.
\<close>

theorem failed_recheck_leaves_stock:
  assumes "\<not> success (fst (checkStockAvailability (check_env e) lines w))"
  shows "fst (deductStockAfterCheckout e lines w) = False
         \<and> remote_products (snd (deductStockAfterCheckout e lines w)) = remote_products w
         \<and> storageService_getProducts (snd (deductStockAfterCheckout e lines w)) =
             (if truthy (checkIsOnline (net (check_env e))) \<and> select_error (check_env e) = None
              then remote_select (remote_products w)
              else storageService_getProducts w)"
  using assms
  by (simp add: deduct_world deduct_result Let_def getProducts_def split: option.split)

theorem failed_recheck_leaves_stock_witness:
  "\<not> success (fst (checkStockAvailability (check_env deduct_offline) [soap_line 5]
                    (shop [soap 3] [soap 3])))
   \<and> fst (deductStockAfterCheckout deduct_offline [soap_line 5] (shop [soap 3] [soap 3])) = False
   \<and> remote_products (snd (deductStockAfterCheckout deduct_offline [soap_line 5]
                              (shop [soap 3] [soap 3]))) = [soap 3]
   \<and> storageService_getProducts (snd (deductStockAfterCheckout deduct_offline [soap_line 5]
                              (shop [soap 3] [soap 3]))) = [soap 3]"
proof -
  have h: "\<not> success (fst (checkStockAvailability (check_env deduct_offline) [soap_line 5]
                    (shop [soap 3] [soap 3])))"
    by code_simp
  have off: "\<not> truthy (checkIsOnline (net (check_env deduct_offline)))"
    by code_simp
  have s: "remote_products (shop [soap 3] [soap 3]) = [soap 3]"
          "storageService_getProducts (shop [soap 3] [soap 3]) = [soap 3]"
    by (simp_all add: shop_def storageService_getProducts_def)
  show ?thesis
    using h off s failed_recheck_leaves_stock [OF h] by simp
qed

text \<open>
  The refresh is visible: with a cached stock of 5, a remote stock of 3 and a request for
  4 made online, the re-check fails and the cached stock has become 3.
\<close>

theorem failed_recheck_changes_cached_stock:
  "\<not> success (fst (checkStockAvailability (check_env deduct_online) [soap_line 4]
                    (shop [soap 3] [soap 5])))
   \<and> map stock (storageService_getProducts (shop [soap 3] [soap 5])) = [5]
   \<and> map stock (storageService_getProducts
        (snd (deductStockAfterCheckout deduct_online [soap_line 4] (shop [soap 3] [soap 5]))))
       = [3]"
  by code_simp

text \<open>
  Claim C10, as the code has it. When the re-check passes, every update is computed from
  the one product view fetched after it. In the cached product list each product then
  carries the deduction of the first cart line with its id only; the remote table, when
  the call is online and no remote update fails, receives all updates in cart order, so
  each row carries the deduction of the last cart line with its id. Quantities of
  duplicate lines are never added up. (The stock a deduction starts from is that of the
  first product of the view with the id, which is the product itself when the ids of the
  view are distinct: \<open>availableStock_own\<close>.)
\<close>

theorem duplicate_lines_first_wins_in_cache:
  assumes "success (fst (checkStockAvailability (check_env e) lines w))"
  shows "storageService_getProducts (snd (deductStockAfterCheckout e lines w)) =
           map (deduct_first_line
                  (fst (getProducts (fetch_env e) (snd (getProducts (check_env e) w)))) lines)
               (fst (getProducts (fetch_env e) (snd (getProducts (check_env e) w))))
         \<and> (truthy (checkIsOnline (batch_net (write_env e)))
              \<and> (\<forall>i. update_error (write_env e) i = None) \<longrightarrow>
            remote_products (snd (deductStockAfterCheckout e lines w)) =
              map (deduct_last_line
                     (fst (getProducts (fetch_env e) (snd (getProducts (check_env e) w)))) lines)
                  (remote_products w))"
  using assms
  by (auto simp: deduct_world Let_def batch_cache batch_remote getProducts_view
      apply_stock_updates apply_stock_updates_rev remote_update_loop_all_ok
      dest!: no_errors_fun)

theorem duplicate_lines_first_wins_in_cache_witness:
  "success (fst (checkStockAvailability (check_env deduct_online) [soap_line 1, soap_line 3]
                  (shop [soap 10] [soap 10])))
   \<and> storageService_getProducts
        (snd (deductStockAfterCheckout deduct_online [soap_line 1, soap_line 3]
               (shop [soap 10] [soap 10]))) = [soap 9]
   \<and> remote_products
        (snd (deductStockAfterCheckout deduct_online [soap_line 1, soap_line 3]
               (shop [soap 10] [soap 10]))) = [soap 7]"
proof -
  have h: "success (fst (checkStockAvailability (check_env deduct_online)
                      [soap_line 1, soap_line 3] (shop [soap 10] [soap 10])))"
    by code_simp
  have on: "truthy (checkIsOnline (batch_net (write_env deduct_online)))"
           "\<forall>i. update_error (write_env deduct_online) i = None"
    by (simp_all add: deduct_online_def online_def checkIsOnline_def js_and_def truthy_def)
  have v: "fst (getProducts (fetch_env deduct_online)
                  (snd (getProducts (check_env deduct_online) (shop [soap 10] [soap 10]))))
           = [soap 10]"
    by code_simp
  have r: "remote_products (shop [soap 10] [soap 10]) = [soap 10]"
    by (simp add: shop_def)
  have d: "deduct_first_line [soap 10] [soap_line 1, soap_line 3] (soap 10) = soap 9"
          "deduct_last_line [soap 10] [soap_line 1, soap_line 3] (soap 10) = soap 7"
    by code_simp+
  show ?thesis
    using h on v r d duplicate_lines_first_wins_in_cache [OF h] by simp
qed

text \<open>
  Two lines for the same product, quantities 1 and 3, stock 10, online: the cache ends at
  9 and the remote row at 7.
\<close>

theorem duplicate_lines_last_wins_remotely:
  "fst (deductStockAfterCheckout deduct_online [soap_line 1, soap_line 3]
          (shop [soap 10] [soap 10])) = True
   \<and> map stock (remote_products (shop [soap 10] [soap 10])) = [10]
   \<and> map stock (remote_products
        (snd (deductStockAfterCheckout deduct_online [soap_line 1, soap_line 3]
               (shop [soap 10] [soap 10])))) = [7]
   \<and> map stock (storageService_getProducts
        (snd (deductStockAfterCheckout deduct_online [soap_line 1, soap_line 3]
               (shop [soap 10] [soap 10])))) = [9]"
  by code_simp


section \<open>The single-product stock update\<close>

text \<open>
  Claim C4, as the code has it. When \<open>updateProductStock\<close> runs online and the remote
  update answers with an error, the error is thrown before the cache is touched: the
  call returns \<open>false\<close> and leaves the local cache (and everything else) as it was.
\<close>

theorem remote_failure_reports_false:
  assumes "truthy (checkIsOnline (stock_net e))" and "stock_error e = Some err"
  shows "updateProductStock e pid n w = (False, w)"
  using assms by (simp add: updateProductStock_def)

theorem remote_failure_reports_false_witness:
  "truthy (checkIsOnline (stock_net stock_write_fails))
   \<and> stock_error stock_write_fails = Some ''timeout''
   \<and> updateProductStock stock_write_fails (IdNum 1) 2
        (shop [soap 5] [soap 5]) = (False, shop [soap 5] [soap 5])"
proof -
  have h: "truthy (checkIsOnline (stock_net stock_write_fails))"
    by code_simp
  have k: "stock_error stock_write_fails = Some ''timeout''"
    by (simp add: stock_write_fails_def)
  show ?thesis
    using h k remote_failure_reports_false [OF h k] by simp
qed

text \<open>
  A product cached with stock 5, an online update to 2 whose remote write fails: the
  result is \<open>false\<close> and the cached stock is still 5.
\<close>

theorem remote_failure_keeps_cached_stock:
  "truthy (checkIsOnline (stock_net stock_write_fails))
   \<and> fst (updateProductStock stock_write_fails (IdNum 1) 2
            (shop [soap 5] [soap 5])) = False
   \<and> map stock (storageService_getProducts
        (snd (updateProductStock stock_write_fails (IdNum 1) 2
               (shop [soap 5] [soap 5])))) = [5]"
  by code_simp

section \<open>Signing out\<close>





section \<open>Creating a product offline\<close>

lemma show_nat_digits: "show_nat n \<noteq> [] \<and> list_all is_digit (show_nat n)"
proof (induction n rule: show_nat.induct)
  case (1 n)
  have all: "list_all is_digit ''0123456789''"
    by (simp add: is_digit_def)
  have d: "is_digit (digit k)" for k
    using all by (simp add: list_all_length digit_def)
  show ?case
  proof (cases "n < 10")
    case True
    then show ?thesis by (simp add: show_nat.simps [of n] d)
  next
    case False
    then show ?thesis using 1 by (simp add: show_nat.simps [of n] d)
  qed
qed

text \<open>
  Claim C9. A product created while offline is the draft with the id
  \<open>temp_\<close> followed by the decimal digits of the millisecond clock and with the current
  time as \<open>created_at\<close>; it is put in front of the cached list, and a product fetch made
  next, still offline, returns it first.
\<close>

theorem offline_create_is_listed_first:
  assumes "\<not> truthy (checkIsOnline (create_net e))" and "\<not> truthy (checkIsOnline (net g))"
  shows "\<exists>p. fst (createProduct e d w) = Inr p
           \<and> draft.truncate p = d
           \<and> id' p = IdStr (''temp_'' @ show_nat (date_now e))
           \<and> show_nat (date_now e) \<noteq> [] \<and> list_all is_digit (show_nat (date_now e))
           \<and> created_at p = new_date e
           \<and> storageService_getProducts (snd (createProduct e d w)) =
               p # storageService_getProducts w
           \<and> fst (getProducts g (snd (createProduct e d w))) =
               p # storageService_getProducts w"
  using assms
  by (simp add: createProduct_def Let_def getProducts_def show_nat_digits
      draft.defs product.defs)

theorem offline_create_is_listed_first_witness:
  "\<not> truthy (checkIsOnline (create_net create_offline))
   \<and> \<not> truthy (checkIsOnline (net fetch_offline))
   \<and> fst (createProduct create_offline soap_draft (shop [] [soap 3])) =
       Inr \<lparr>name = ''Soap'', price = 25, stock = 10, barcode = None, category = None,
            id' = IdStr ''temp_1700000000000'', created_at = 1700000000000\<rparr>
   \<and> list_all is_digit (show_nat (date_now create_offline))
   \<and> map id' (fst (getProducts fetch_offline
                      (snd (createProduct create_offline soap_draft (shop [] [soap 3]))))) =
       [IdStr ''temp_1700000000000'', IdNum 1]"
proof -
  have h: "\<not> truthy (checkIsOnline (create_net create_offline))"
    by (simp add: create_offline_def offline_def checkIsOnline_def js_and_def truthy_def)
  have g: "\<not> truthy (checkIsOnline (net fetch_offline))"
    by (simp add: fetch_offline_def offline_def checkIsOnline_def js_and_def truthy_def)
  have n: "show_nat (date_now create_offline) = ''1700000000000''"
    by (simp add: create_offline_def show_nat.simps digit_def)
  have v: "fst (createProduct create_offline soap_draft (shop [] [soap 3])) =
       Inr \<lparr>name = ''Soap'', price = 25, stock = 10, barcode = None, category = None,
            id' = IdStr ''temp_1700000000000'', created_at = 1700000000000\<rparr>"
    using h n by (simp add: createProduct_def Let_def soap_draft_def draft.defs product.defs)
         (simp add: create_offline_def)
  have c: "map id' (storageService_getProducts (shop [] [soap 3])) = [IdNum 1]"
    by (simp add: shop_def storageService_getProducts_def soap_def)
  from offline_create_is_listed_first [OF h g, of soap_draft "shop [] [soap 3]"]
  obtain p where p: "fst (createProduct create_offline soap_draft (shop [] [soap 3])) = Inr p"
      "id' p = IdStr (''temp_'' @ show_nat (date_now create_offline))"
      "list_all is_digit (show_nat (date_now create_offline))"
      "fst (getProducts fetch_offline
              (snd (createProduct create_offline soap_draft (shop [] [soap 3])))) =
         p # storageService_getProducts (shop [] [soap 3])"
    by blast
  show ?thesis
    using h g v c p n by simp
qed

section \<open>Checkout\<close>

lemma handleCashInputChange_pattern:
  "cash_pattern (cashGiven m) \<Longrightarrow> cash_pattern (cashGiven (handleCashInputChange t m))"
  by (simp add: handleCashInputChange_def)

lemma handleSubmit_shortfall:
  assumes "\<not> success (fst (checkStockAvailability (validate_env e) cart w))"
  shows "handleSubmitTransaction e cart tot m w =
           (m\<lparr>processing := False,
               error := Some (out_of_stock_message
                        (insufficientItems (fst (checkStockAvailability (validate_env e) cart w))))\<rparr>,
            snd (getProducts (validate_env e) w))"
proof -
  obtain r w1 where c: "checkStockAvailability (validate_env e) cart w = (r, w1)"
    by (cases "checkStockAvailability (validate_env e) cart w")
  have w1: "snd (getProducts (validate_env e) w) = w1"
    using c checkStock_world [of "validate_env e" cart w] by simp
  show ?thesis
    using assms by (simp add: handleSubmitTransaction_def Let_def c w1)
qed

text \<open>
  Claim C5, as the code has it. When the availability check over the cart reports a
  shortfall, \<open>handleSubmitTransaction\<close> stops there: no transaction row and no
  transaction-item row is inserted, the remote products are untouched and no deduction is
  applied; the modal shows the per-item message. The cached product list changes only
  through the refresh of the product fetch that the check performs (it ends as the fetched
  remote list when that fetch was made online and succeeded, and unchanged otherwise).
\<close>

theorem shortfall_blocks_checkout:
  assumes "\<not> success (fst (checkStockAvailability (validate_env e) cart w))"
  shows "transactions (snd (handleSubmitTransaction e cart tot m w)) = transactions w
         \<and> transaction_items (snd (handleSubmitTransaction e cart tot m w)) = transaction_items w
         \<and> remote_products (snd (handleSubmitTransaction e cart tot m w)) = remote_products w
         \<and> storageService_getProducts (snd (handleSubmitTransaction e cart tot m w)) =
             (if truthy (checkIsOnline (net (validate_env e))) \<and> select_error (validate_env e) = None
              then remote_select (remote_products w)
              else storageService_getProducts w)
         \<and> error (fst (handleSubmitTransaction e cart tot m w)) =
             Some (out_of_stock_message
                     (insufficientItems (fst (checkStockAvailability (validate_env e) cart w))))
         \<and> receipt (fst (handleSubmitTransaction e cart tot m w)) = receipt m"
  by (simp add: handleSubmit_shortfall [OF assms] getProducts_def Let_def split: option.split)

theorem shortfall_blocks_checkout_witness:
  "\<not> success (fst (checkStockAvailability (validate_env (checkout_online\<lparr>validate_env := fetch_offline\<rparr>))
                    [soap_line 5] (shop [soap 3] [soap 3])))
   \<and> transactions (snd (handleSubmitTransaction (checkout_online\<lparr>validate_env := fetch_offline\<rparr>)
                          [soap_line 5] 125 (till ''200'') (shop [soap 3] [soap 3]))) = []
   \<and> transaction_items (snd (handleSubmitTransaction (checkout_online\<lparr>validate_env := fetch_offline\<rparr>)
                          [soap_line 5] 125 (till ''200'') (shop [soap 3] [soap 3]))) = []
   \<and> remote_products (snd (handleSubmitTransaction (checkout_online\<lparr>validate_env := fetch_offline\<rparr>)
                          [soap_line 5] 125 (till ''200'') (shop [soap 3] [soap 3]))) = [soap 3]
   \<and> storageService_getProducts
        (snd (handleSubmitTransaction (checkout_online\<lparr>validate_env := fetch_offline\<rparr>)
                          [soap_line 5] 125 (till ''200'') (shop [soap 3] [soap 3]))) = [soap 3]"
proof -
  have h: "\<not> success (fst (checkStockAvailability
                    (validate_env (checkout_online\<lparr>validate_env := fetch_offline\<rparr>))
                    [soap_line 5] (shop [soap 3] [soap 3])))"
    by code_simp
  have off: "\<not> truthy (checkIsOnline (net (validate_env (checkout_online\<lparr>validate_env := fetch_offline\<rparr>))))"
    by code_simp
  have s: "remote_products (shop [soap 3] [soap 3]) = [soap 3]"
          "storageService_getProducts (shop [soap 3] [soap 3]) = [soap 3]"
          "transactions (shop [soap 3] [soap 3]) = []"
          "transaction_items (shop [soap 3] [soap 3]) = []"
    by (simp_all add: shop_def storageService_getProducts_def)
  show ?thesis
    using h off s shortfall_blocks_checkout [OF h, of 125 "till ''200''"] by simp
qed

text \<open>
  The refresh is visible here too: cached stock 5, remote stock 3, a cart asking for 4,
  online. The checkout is blocked and the cached stock has become 3.
\<close>

theorem blocked_checkout_changes_cached_stock:
  "\<not> success (fst (checkStockAvailability (validate_env checkout_online) [soap_line 4]
                    (shop [soap 3] [soap 5])))
   \<and> map stock (storageService_getProducts (shop [soap 3] [soap 5])) = [5]
   \<and> map stock (storageService_getProducts
        (snd (handleSubmitTransaction checkout_online [soap_line 4] 100 (till ''120'')
               (shop [soap 3] [soap 5])))) = [3]"
  by code_simp

text \<open>
  Claim C7. When the cash field is empty or the cash given is less than the total, pressing
  "Complete Sale" does nothing: the button is disabled, \<open>handleSubmitTransaction\<close> does
  not run, and no transaction row is created.
\<close>

theorem invalid_payment_creates_no_transaction:
  assumes "cashGiven m = [] \<or> (\<exists>c. parseFloat (cashGiven m) = Num c \<and> c < tot)"
  shows "completeSale_onPress e cart tot m w = (m, w)
         \<and> transactions (snd (completeSale_onPress e cart tot m w)) = transactions w"
  using assms by (auto simp: completeSale_onPress_def isValidPayment_def)

theorem invalid_payment_creates_no_transaction_witness:
  "parseFloat (cashGiven (till ''50'')) = Num 50 \<and> (50::rat) < 100
   \<and> completeSale_onPress checkout_online [soap_line 4] 100 (till ''50'') (shop [soap 10] [soap 10])
       = (till ''50'', shop [soap 10] [soap 10])"
proof -
  have p: "parseFloat (cashGiven (till ''50'')) = Num 50"
    by code_simp
  then have h: "cashGiven (till ''50'') = [] \<or>
                (\<exists>c. parseFloat (cashGiven (till ''50'')) = Num c \<and> c < 100)"
    by simp
  show ?thesis
    using p invalid_payment_creates_no_transaction [OF h] by simp
qed

text \<open>
  With a valid payment the same press does persist the sale: a cart of two units at 50,
  cash 120 and total 100 give one transaction row with change 20, one item row, and the
  stock of the product falls from 10 to 8 in both stores.
\<close>

lemma scenario_A:
  "transactions (snd (completeSale_onPress checkout_online
     [\<lparr>item_id = IdNum 1, item_name = ''Soap'', quantity = 2, item_price = 50\<rparr>] 100
     (till ''120'') (shop [soap 10] [soap 10]))) =
   [\<lparr>tx_id = IdNum 100, total' = 100, cash_given = Num 120, change = Num 20,
      status = ''completed'', tx_created_at = 2000, updated_at = 2000\<rparr>]
   \<and> transaction_items (snd (completeSale_onPress checkout_online
     [\<lparr>item_id = IdNum 1, item_name = ''Soap'', quantity = 2, item_price = 50\<rparr>] 100
     (till ''120'') (shop [soap 10] [soap 10]))) =
   [\<lparr>transaction_id = IdNum 100, product_id = IdNum 1, ti_quantity = 2, ti_price = 50\<rparr>]
   \<and> remote_products (snd (completeSale_onPress checkout_online
     [\<lparr>item_id = IdNum 1, item_name = ''Soap'', quantity = 2, item_price = 50\<rparr>] 100
     (till ''120'') (shop [soap 10] [soap 10]))) = [soap 8]
   \<and> storageService_getProducts (snd (completeSale_onPress checkout_online
     [\<lparr>item_id = IdNum 1, item_name = ''Soap'', quantity = 2, item_price = 50\<rparr>] 100
     (till ''120'') (shop [soap 10] [soap 10]))) = [soap 8]
   \<and> error (fst (completeSale_onPress checkout_online
     [\<lparr>item_id = IdNum 1, item_name = ''Soap'', quantity = 2, item_price = 50\<rparr>] 100
     (till ''120'') (shop [soap 10] [soap 10]))) = None
   \<and> map_option (\<lambda>r. map subtotal (items' r)) (receipt (fst (completeSale_onPress checkout_online
     [\<lparr>item_id = IdNum 1, item_name = ''Soap'', quantity = 2, item_price = 50\<rparr>] 100
     (till ''120'') (shop [soap 10] [soap 10])))) = Some [100]"
  by code_simp

end
